theory Spec2Isabelle
  imports Main "HOL-Library.Word"
begin

section \<open>Subpass: light packing and attachment lists (framework/rendering/subpass.h)\<close>

text \<open>
  The header declares the GPU light record \<open>Light\<close>, the class \<open>Subpass\<close> with its
  attachment lists, and defines the two template members \<open>allocate_lights\<close> and
  \<open>allocate_set_num_lights\<close>. Everything the header only includes is outside the sources
  at hand: glm, the scene graph (\<open>sg::Light\<close>, \<open>sg::Node\<close>, \<open>sg::Transform\<close>),
  \<open>to_u32\<close>, the container types \<open>ForwardLights\<close> / \<open>DeferredLights\<close> passed for
  \<open>T\<close>, the render frame and \<open>BufferAllocation\<close>, and the file that defines the
  non-template members of \<open>Subpass\<close>.
\<close>

subsection \<open>Vectors\<close>

text \<open>
  glm's \<open>vec2\<close>, \<open>vec3\<close>, \<open>vec4\<close> over an uninterpreted type \<open>'f\<close> of floats: the code
  only moves components around, except for the quaternion-vector product and the cast of
  the light type, which are parameters of the model (\<open>rotation_apply\<close>, \<open>float_of_type\<close>).
\<close>

datatype 'f vec2 = Vec2 'f 'f

datatype 'f vec3 = Vec3 'f 'f 'f

datatype 'f vec4 = Vec4 'f 'f 'f 'f

text \<open>The constructor \<open>vec4(vec3, float)\<close> that the braces \<open>{v, s}\<close> select.\<close>

fun vec4_of :: "'f vec3 \<Rightarrow> 'f \<Rightarrow> 'f vec4" where
  "vec4_of (Vec3 x y z) s = Vec4 x y z s"

fun xyz_of :: "'f vec4 \<Rightarrow> 'f vec3" where
  "xyz_of (Vec4 x y z s) = Vec3 x y z"

fun w_of :: "'f vec4 \<Rightarrow> 'f" where
  "w_of (Vec4 x y z s) = s"

subsection \<open>The GPU light record and the scene light\<close>

text \<open>\<open>struct alignas(16) Light\<close>, lines 40 to 46.\<close>

record 'f Light =
  position :: "'f vec4"
  color :: "'f vec4"
  direction :: "'f vec4"
  info :: "'f vec2"

text \<open>
  What the code reads from a scene light: \<open>light->get_properties()\<close> with the six members
  used below (prefixed \<open>p_\<close> here, as \<open>color\<close> and \<open>direction\<close> are fields of \<open>Light\<close>
  already), \<open>light->get_node()->get_transform()\<close> with \<open>get_translation()\<close> and
  \<open>get_rotation()\<close>, and \<open>light->get_light_type()\<close>. The vector holds pointers; the model
  holds the lights they point to, each attached to a node. \<open>'t\<close> is the light type
  enumeration and \<open>'q\<close> the quaternion type.
\<close>

record 'f LightProperties =
  p_direction :: "'f vec3"
  p_color :: "'f vec3"
  p_intensity :: 'f
  p_range :: 'f
  p_inner_cone_angle :: 'f
  p_outer_cone_angle :: 'f

record ('f, 'q) Transform =
  get_translation :: "'f vec3"
  get_rotation :: 'q

record ('f, 'q) Node =
  get_transform :: "('f, 'q) Transform"

record ('t, 'f, 'q) sg_Light =
  get_light_type :: 't
  get_properties :: "'f LightProperties"
  get_node :: "('f, 'q) Node"

subsection \<open>Failures\<close>

text \<open>
  \<open>AssertionFailure\<close>: the \<open>assert\<close> of line 129 fires (the model is of a build in which
  \<open>assert\<close> is active). \<open>U32Overflow\<close>: \<open>to_u32\<close> cannot represent its argument.
  \<open>ArrayOverrun\<close>: a write past the end of \<open>light_info.lights\<close>, and
  \<open>BackOfEmptyVector\<close>: \<open>back()\<close> of an empty vector; both are undefined behaviour in
  C++, with no check in the code. \<open>OutOfRange\<close>: what \<open>std::vector::at\<close> throws.
\<close>

datatype error = AssertionFailure | U32Overflow | ArrayOverrun | BackOfEmptyVector | OutOfRange

fun undefined_behaviour :: "error \<Rightarrow> bool" where
  "undefined_behaviour ArrayOverrun = True"
| "undefined_behaviour BackOfEmptyVector = True"
| "undefined_behaviour _ = False"

subsection \<open>The container \<open>T\<close>\<close>

type_synonym u32 = "32 word"

text \<open>
  \<open>T\<close> is \<open>ForwardLights\<close> or \<open>DeferredLights\<close>: a \<open>uint32_t count\<close> and a C array
  \<open>lights\<close>. The length of that array is the parameter \<open>capacity\<close> of the model; as
  \<open>count\<close> has to range over it, it is a 32-bit value. \<open>T light_info;\<close> leaves the array
  as the default initialisation of \<open>T\<close> makes it: a slot the operation has not written
  is \<open>None\<close>.
\<close>

record 'f light_info =
  count :: u32
  lights :: "'f Light option list"

text \<open>
  Modelled from the spec: \<open>to_u32\<close> (common/helpers.h) is missing from the sources. The
  spec has \<open>count = scene_lights.size()\<close> and \<open>count = num_lights\<close>, so the conversion
  keeps the value; a value that 32 bits cannot hold has no such result, and the
  conversion fails.
\<close>

definition to_u32 :: "nat \<Rightarrow> error + u32" where
  "to_u32 v = (if v < 2 ^ 32 then Inr (word_of_nat v) else Inl U32Overflow)"

text \<open>
  \<open>std::copy\<close> of a vector to \<open>light_info.lights\<close>, an array of \<open>cap\<close> slots: the
  elements go to the slots 0, 1, ... in order; one more than \<open>cap\<close> is written past
  the array. The code has no check of its own there: the write is undefined behaviour,
  C++ gives the call no result from then on, and the compiled code may well go on and
  hand out the container. \<open>ArrayOverrun\<close> marks the point where the defined behaviour
  ends; it is not a failure the code raises. Within \<open>cap\<close> the result is what the code
  writes.
\<close>

definition std_copy :: "'a list \<Rightarrow> nat \<Rightarrow> error + 'a option list" where
  "std_copy xs cap =
     (if length xs \<le> cap then Inr (map Some xs @ replicate (cap - length xs) None)
      else Inl ArrayOverrun)"

text \<open>\<open>std::transform\<close> to the same array: the images under \<open>f\<close>, in order.\<close>

definition std_transform :: "('b \<Rightarrow> 'a) \<Rightarrow> 'b list \<Rightarrow> nat \<Rightarrow> error + 'a option list" where
  "std_transform f xs cap = std_copy (map f xs) cap"

subsection \<open>\<open>allocate_lights\<close>, lines 126 to 149\<close>

text \<open>
  The buffer comes from the render frame of the context and \<open>light_buffer.update\<close> writes
  \<open>light_info\<close> to it; the model returns the buffer as the \<open>light_info\<close> it holds.
\<close>

definition allocate_lights ::
  "('t \<Rightarrow> 'f) \<Rightarrow> ('q \<Rightarrow> 'f vec3 \<Rightarrow> 'f vec3) \<Rightarrow> u32 \<Rightarrow>
   ('t, 'f, 'q) sg_Light list \<Rightarrow> nat \<Rightarrow> error + 'f light_info" where
  "allocate_lights float_of_type rotation_apply capacity scene_lights max_lights =
     (if \<not> length scene_lights \<le> max_lights then Inl AssertionFailure
      else case to_u32 (length scene_lights) of
        Inl e \<Rightarrow> Inl e
      | Inr c \<Rightarrow>
          (case std_transform
                  (\<lambda>light.
                     let properties = get_properties light;
                         transform = get_transform (get_node light)
                     in \<lparr>position = vec4_of (get_translation transform)
                                                (float_of_type (get_light_type light)),
                         color = vec4_of (p_color properties) (p_intensity properties),
                         direction = vec4_of (rotation_apply (get_rotation transform) (p_direction properties))
                                                 (p_range properties),
                         info = Vec2 (p_inner_cone_angle properties)
                                     (p_outer_cone_angle properties)\<rparr>)
                  scene_lights (unat capacity) of
             Inl e \<Rightarrow> Inl e
           | Inr arr \<Rightarrow> Inr \<lparr>count = c, lights = arr\<rparr>))"

subsection \<open>\<open>allocate_set_num_lights\<close>, lines 160 to 186\<close>

definition vector_at :: "'a list \<Rightarrow> nat \<Rightarrow> error + 'a" where
  "vector_at xs i = (if i < length xs then Inr (xs ! i) else Inl OutOfRange)"

definition vector_back :: "'a list \<Rightarrow> error + 'a" where
  "vector_back xs = (case xs of [] \<Rightarrow> Inl BackOfEmptyVector | _ \<Rightarrow> Inr (last xs))"

text \<open>
  The loop of lines 167 to 177, from the counter \<open>i\<close> and the \<open>lights_vector\<close> built
  so far. The counter is a \<open>uint32_t\<close> compared with a \<open>size_t\<close>, and \<open>++i\<close> wraps
  around: with \<open>num_lights\<close> beyond 32 bits the loop does not end, which is \<open>None\<close>.
\<close>

partial_function (option) lights_loop ::
  "('t \<Rightarrow> 'f) \<Rightarrow> ('q \<Rightarrow> 'f vec3 \<Rightarrow> 'f vec3) \<Rightarrow> ('t, 'f, 'q) sg_Light list \<Rightarrow> nat \<Rightarrow>
   u32 \<Rightarrow> 'f Light list \<Rightarrow> (error + 'f Light list) option" where
  "lights_loop float_of_type rotation_apply scene_lights num_lights i lights_vector =
     (if unat i < num_lights then
        (case (if unat i < length scene_lights then vector_at scene_lights (unat i)
               else vector_back scene_lights) of
           Inl e \<Rightarrow> Some (Inl e)
         | Inr light \<Rightarrow>
             (let properties = get_properties light;
                  transform = get_transform (get_node light)
              in lights_loop float_of_type rotation_apply scene_lights num_lights (i + 1)
                   (lights_vector @
                    [\<lparr>position = vec4_of (get_translation transform)
                                           (float_of_type (get_light_type light)),
                      color = vec4_of (p_color properties) (p_intensity properties),
                      direction = vec4_of (rotation_apply (get_rotation transform) (p_direction properties))
                                          (p_range properties),
                      info = Vec2 (p_inner_cone_angle properties)
                                  (p_outer_cone_angle properties)\<rparr>])))
      else Some (Inr lights_vector))"

definition allocate_set_num_lights ::
  "('t \<Rightarrow> 'f) \<Rightarrow> ('q \<Rightarrow> 'f vec3 \<Rightarrow> 'f vec3) \<Rightarrow> u32 \<Rightarrow>
   ('t, 'f, 'q) sg_Light list \<Rightarrow> nat \<Rightarrow> (error + 'f light_info) option" where
  "allocate_set_num_lights float_of_type rotation_apply capacity scene_lights num_lights =
     (case to_u32 num_lights of
        Inl e \<Rightarrow> Some (Inl e)
      | Inr c \<Rightarrow>
          (case lights_loop float_of_type rotation_apply scene_lights num_lights 0 [] of
             None \<Rightarrow> None
           | Some (Inl e) \<Rightarrow> Some (Inl e)
           | Some (Inr lights_vector) \<Rightarrow>
               (case std_copy lights_vector (unat capacity) of
                  Inl e \<Rightarrow> Some (Inl e)
                | Inr arr \<Rightarrow> Some (Inr \<lparr>count = c, lights = arr\<rparr>))))"

subsection \<open>The transform rule in the spec's words\<close>

text \<open>
  Section 4.2 of the spec: position = (translation of the light's node, light type as
  float); color = (light color, light intensity); direction = (rotation of the node
  applied to the light's direction, light range); info = (inner cone angle, outer cone
  angle).
\<close>

definition transform_rule ::
  "('t \<Rightarrow> 'f) \<Rightarrow> ('q \<Rightarrow> 'f vec3 \<Rightarrow> 'f vec3) \<Rightarrow> ('t, 'f, 'q) sg_Light \<Rightarrow> 'f Light" where
  "transform_rule float_of_type rotation_apply l =
     \<lparr>position = vec4_of (get_translation (get_transform (get_node l)))
                         (float_of_type (get_light_type l)),
      color = vec4_of (p_color (get_properties l)) (p_intensity (get_properties l)),
      direction = vec4_of (rotation_apply (get_rotation (get_transform (get_node l)))
                                  (p_direction (get_properties l)))
                          (p_range (get_properties l)),
      info = Vec2 (p_inner_cone_angle (get_properties l))
                  (p_outer_cone_angle (get_properties l))\<rparr>"

text \<open>
  Section 4.3 of the spec: the light of slot \<open>i\<close> is \<open>scene_lights[i]\<close> for
  \<open>i < size()\<close> and \<open>scene_lights.back()\<close> for \<open>i \<ge> size()\<close>.
\<close>

definition padded_light :: "'a list \<Rightarrow> nat \<Rightarrow> 'a" where
  "padded_light L i = (if i < length L then L ! i else last L)"

text \<open>
  \<open>processed f r c i l\<close>: one of the two operations has returned the container \<open>c\<close>, and
  the scene light it has read for slot \<open>i\<close> is \<open>l\<close>.
\<close>

inductive processed ::
  "('t \<Rightarrow> 'f) \<Rightarrow> ('q \<Rightarrow> 'f vec3 \<Rightarrow> 'f vec3) \<Rightarrow> 'f light_info \<Rightarrow> nat \<Rightarrow>
   ('t, 'f, 'q) sg_Light \<Rightarrow> bool" where
  by_allocate_lights:
    "allocate_lights f r capacity L max_lights = Inr c \<Longrightarrow> i < length L \<Longrightarrow>
     processed f r c i (L ! i)"
| by_allocate_set_num_lights:
    "allocate_set_num_lights f r capacity L num_lights = Some (Inr c) \<Longrightarrow> i < num_lights \<Longrightarrow>
     processed f r c i (if i < length L then L ! i else last L)"

subsection \<open>The attachment lists of \<open>Subpass\<close>\<close>

text \<open>
  The data members of lines 189 to 204. \<open>RenderContext\<close>, \<open>ShaderSource\<close> and
  \<open>DepthStencilState\<close> are the type parameters \<open>'rc\<close>, \<open>'ss\<close>, \<open>'ds\<close>.
\<close>

record ('rc, 'ss, 'ds) Subpass =
  render_context :: 'rc
  use_dynamic_resources :: bool
  vertex_shader :: 'ss
  fragment_shader :: 'ss
  depth_stencil_state :: 'ds
  input_attachments :: "u32 list"
  output_attachments :: "u32 list"

text \<open>
  Modelled from the spec: the definition of the constructor declared in line 65 is
  missing from the sources. It takes the render context and the two shader sources; by
  the spec a newly constructed Subpass has its defaults, which are the default member
  initialisers of lines 191 to 204: \<open>use_dynamic_resources{false}\<close>,
  \<open>depth_stencil_state{}\<close> (the parameter \<open>ds0\<close>), \<open>input_attachments = {}\<close> and
  \<open>output_attachments = {0}\<close>.
\<close>

definition Subpass_new :: "'rc \<Rightarrow> 'ss \<Rightarrow> 'ss \<Rightarrow> 'ds \<Rightarrow> ('rc, 'ss, 'ds) Subpass" where
  "Subpass_new rc vertex_source fragment_source ds0 =
     \<lparr>render_context = rc,
      use_dynamic_resources = False,
      vertex_shader = vertex_source,
      fragment_shader = fragment_source,
      depth_stencil_state = ds0,
      input_attachments = [],
      output_attachments = [0]\<rparr>"

text \<open>
  Modelled from the spec: the accessors of lines 100 to 106 are only declared in the
  header. By section 4.1 of the spec they get and set the input and output attachment
  lists, replacing the whole ordered sequence.
\<close>

definition get_input_attachments :: "('rc, 'ss, 'ds) Subpass \<Rightarrow> u32 list" where
  "get_input_attachments s = input_attachments s"

definition set_input_attachments ::
  "u32 list \<Rightarrow> ('rc, 'ss, 'ds) Subpass \<Rightarrow> ('rc, 'ss, 'ds) Subpass" where
  "set_input_attachments input s = s\<lparr>input_attachments := input\<rparr>"

definition get_output_attachments :: "('rc, 'ss, 'ds) Subpass \<Rightarrow> u32 list" where
  "get_output_attachments s = output_attachments s"

definition set_output_attachments ::
  "u32 list \<Rightarrow> ('rc, 'ss, 'ds) Subpass \<Rightarrow> ('rc, 'ss, 'ds) Subpass" where
  "set_output_attachments output s = s\<lparr>output_attachments := output\<rparr>"

text \<open>
  Modelled from the spec: \<open>update_render_target_attachments\<close> (line 84) is only declared
  in the header, and the render target is a class outside the sources. By section 4.1
  of the spec the operation pushes the current input and output attachment lists of the
  subpass into the render target of the active frame; the render target is the state
  passed through.
\<close>

record RenderTarget =
  rt_input_attachments :: "u32 list"
  rt_output_attachments :: "u32 list"

definition update_render_target_attachments ::
  "('rc, 'ss, 'ds) Subpass \<Rightarrow> RenderTarget \<Rightarrow> RenderTarget" where
  "update_render_target_attachments s render_target =
     render_target\<lparr>rt_input_attachments := input_attachments s,
                   rt_output_attachments := output_attachments s\<rparr>"

subsection \<open>A small scene\<close>

text \<open>
  Concrete inputs for the examples: floats are integers, the light type is its number
  in the enumeration, and a rotation is either none or the half turn about the third
  axis.
\<close>

fun half_turn :: "bool \<Rightarrow> int vec3 \<Rightarrow> int vec3" where
  "half_turn q (Vec3 x y z) = (if q then Vec3 (- x) (- y) z else Vec3 x y z)"

definition sun :: "(nat, int, bool) sg_Light" where
  "sun = \<lparr>get_light_type = 0,
          get_properties = \<lparr>p_direction = Vec3 0 (- 1) 0, p_color = Vec3 255 255 200,
                            p_intensity = 3, p_range = 0,
                            p_inner_cone_angle = 0, p_outer_cone_angle = 0\<rparr>,
          get_node = \<lparr>get_transform = \<lparr>get_translation = Vec3 0 100 0,
                                        get_rotation = False\<rparr>\<rparr>\<rparr>"

definition lamp :: "(nat, int, bool) sg_Light" where
  "lamp = \<lparr>get_light_type = 2,
           get_properties = \<lparr>p_direction = Vec3 1 0 (- 1), p_color = Vec3 255 180 90,
                             p_intensity = 7, p_range = 12,
                             p_inner_cone_angle = 20, p_outer_cone_angle = 35\<rparr>,
           get_node = \<lparr>get_transform = \<lparr>get_translation = Vec3 4 2 (- 6),
                                         get_rotation = True\<rparr>\<rparr>\<rparr>"

section \<open>Properties\<close>

subsection \<open>Auxiliary facts\<close>

lemma xyz_of_vec4_of: "xyz_of (vec4_of v s) = v"
  by (cases v) simp

lemma w_of_vec4_of: "w_of (vec4_of v s) = s"
  by (cases v) simp

lemma unat_u32_bound: "unat (x :: u32) < 2 ^ 32"
  using unsigned_less [of x, where 'a = nat] by simp

lemma unat_u32_of_nat: "n < 2 ^ 32 \<Longrightarrow> unat (word_of_nat n :: u32) = n"
  by (simp add: unat_of_nat)

lemma unat_u32_succ: "unat (i :: u32) < n \<Longrightarrow> n < 2 ^ 32 \<Longrightarrow> unat (i + 1) = Suc (unat i)"
proof -
  assume a: "unat i < n" "n < 2 ^ 32"
  have "unat i + unat (1 :: u32) < 2 ^ LENGTH(32)" using a by simp
  then have "unat (i + 1) = unat i + unat (1 :: u32)" by (simp only: unat_add_lem)
  then show ?thesis by simp
qed

text \<open>What \<open>allocate_lights\<close> returns, case by case in the order of the code.\<close>

lemma allocate_lights_eq:
  "allocate_lights f r capacity L max_lights =
     (if \<not> length L \<le> max_lights then Inl AssertionFailure
      else if \<not> length L < 2 ^ 32 then Inl U32Overflow
      else if \<not> length L \<le> unat capacity then Inl ArrayOverrun
      else Inr \<lparr>count = word_of_nat (length L),
                lights = map (\<lambda>l. Some (transform_rule f r l)) L @
                         replicate (unat capacity - length L) None\<rparr>)"
  by (simp add: allocate_lights_def to_u32_def std_transform_def std_copy_def
      transform_rule_def Let_def comp_def)

lemma select_light:
  "L \<noteq> [] \<Longrightarrow>
   (if k < length L then vector_at L k else vector_back L) = Inr (padded_light L k)"
  by (cases L) (simp_all add: vector_at_def vector_back_def padded_light_def)

text \<open>
  The loop ends when \<open>num_lights\<close> fits 32 bits and the list is not empty: from the
  counter \<open>i\<close> it appends the records of the slots \<open>i\<close> to \<open>num_lights - 1\<close>.
\<close>

lemma lights_loop_run:
  assumes "L \<noteq> []" and "n < 2 ^ 32"
  shows "unat i \<le> n \<Longrightarrow>
         lights_loop f r L n i v =
           Some (Inr (v @ map (\<lambda>k. transform_rule f r (padded_light L k)) [unat i..<n]))"
proof (induction "n - unat i" arbitrary: i v)
  case 0
  then have "\<not> unat i < n" by simp
  then show ?case by (subst lights_loop.simps) simp
next
  case (Suc d)
  then have lt: "unat i < n" by simp
  have nxt: "unat (i + 1) = Suc (unat i)" using lt assms(2) by (rule unat_u32_succ)
  have "d = n - unat (i + 1)" using Suc.hyps(2) nxt by simp
  moreover have "unat (i + 1) \<le> n" using lt nxt by simp
  ultimately have ih: "lights_loop f r L n (i + 1) v' =
      Some (Inr (v' @ map (\<lambda>k. transform_rule f r (padded_light L k)) [unat (i + 1)..<n]))" for v'
    by (rule Suc.hyps(1))
  have range: "[unat i..<n] = unat i # [Suc (unat i)..<n]" using lt by (simp add: upt_conv_Cons)
  show ?case
    by (subst lights_loop.simps)
       (simp add: lt select_light [OF assms(1)] Let_def ih nxt range transform_rule_def)
qed

lemma lights_loop_empty:
  "0 < n \<Longrightarrow> lights_loop f r [] n 0 [] = Some (Inl BackOfEmptyVector)"
  by (subst lights_loop.simps) (simp add: vector_back_def)

lemma lights_loop_zero: "lights_loop f r L 0 i v = Some (Inr v)"
  by (subst lights_loop.simps) simp

text \<open>What \<open>allocate_set_num_lights\<close> returns, case by case.\<close>

lemma allocate_set_num_lights_eq:
  "allocate_set_num_lights f r capacity L n =
     (if \<not> n < 2 ^ 32 then Some (Inl U32Overflow)
      else if n = 0 then Some (Inr \<lparr>count = 0, lights = replicate (unat capacity) None\<rparr>)
      else if L = [] then Some (Inl BackOfEmptyVector)
      else if \<not> n \<le> unat capacity then Some (Inl ArrayOverrun)
      else Some (Inr \<lparr>count = word_of_nat n,
                      lights = map (\<lambda>k. Some (transform_rule f r (padded_light L k))) [0..<n] @
                               replicate (unat capacity - n) None\<rparr>))"
proof -
  consider "\<not> n < 2 ^ 32" | "n = 0" | "n < 2 ^ 32" "0 < n" "L = []" | "n < 2 ^ 32" "0 < n" "L \<noteq> []"
    by fastforce
  then show ?thesis
  proof cases
    case 1
    then show ?thesis by (simp add: allocate_set_num_lights_def to_u32_def)
  next
    case 2
    then show ?thesis
      by (simp add: allocate_set_num_lights_def to_u32_def lights_loop_zero std_copy_def)
  next
    case 3
    then show ?thesis
      by (simp add: allocate_set_num_lights_def to_u32_def lights_loop_empty)
  next
    case 4
    have "lights_loop f r L n 0 [] =
            Some (Inr (map (\<lambda>k. transform_rule f r (padded_light L k)) [0..<n]))"
      using lights_loop_run [OF 4(3) 4(1), of 0 f r "[]"] by simp
    then show ?thesis
      using 4 by (simp add: allocate_set_num_lights_def to_u32_def std_copy_def comp_def)
  qed
qed

lemma processed_slot:
  "processed f r c i l \<Longrightarrow> lights c ! i = Some (transform_rule f r l)"
proof (induction rule: processed.induct)
  case (by_allocate_lights f r capacity L max_lights c i)
  then show ?case
    by (auto simp: allocate_lights_eq nth_append split: if_splits)
next
  case (by_allocate_set_num_lights f r capacity L num_lights c i)
  then show ?case
    by (auto simp: allocate_set_num_lights_eq nth_append padded_light_def split: if_splits)
qed

subsection \<open>The clamp policy\<close>

text \<open>
  C1, as amended. For every light list \<open>L\<close> and every \<open>max_lights\<close> with
  \<open>|L| \<le> max_lights\<close>, and with \<open>|L|\<close> within the length of the \<open>lights\<close> array of
  \<open>T\<close>, \<open>allocate_lights\<close> returns a container whose \<open>count\<close> is \<open>|L|\<close> and whose record at
  every index \<open>i < |L|\<close> is the transform of \<open>L[i]\<close>: the records are in the order of
  the list.
\<close>

theorem allocate_lights_packs_in_order:
  assumes "length L \<le> max_lights" and "length L \<le> unat capacity"
  shows "\<exists>c. allocate_lights f r capacity L max_lights = Inr c \<and>
             unat (count c) = length L \<and>
             (\<forall>i<length L. lights c ! i = Some (transform_rule f r (L ! i)))"
proof -
  have small: "length L < 2 ^ 32"
    using assms(2) unat_u32_bound [of capacity] by simp
  then have "unat (word_of_nat (length L) :: u32) = length L"
    by (rule unat_u32_of_nat)
  then show ?thesis
    using assms small by (simp add: allocate_lights_eq nth_append)
qed

theorem allocate_lights_packs_in_order_witness:
  "length [sun, lamp] \<le> (8 :: nat) \<and> length [sun, lamp] \<le> unat (16 :: u32) \<and>
   (\<exists>c. allocate_lights int half_turn 16 [sun, lamp] 8 = Inr c \<and>
        unat (count c) = 2 \<and>
        lights c ! 0 = Some \<lparr>position = Vec4 0 100 0 0, color = Vec4 255 255 200 3,
                              direction = Vec4 0 (- 1) 0 0, info = Vec2 0 0\<rparr> \<and>
        lights c ! 1 = Some \<lparr>position = Vec4 4 2 (- 6) 2, color = Vec4 255 180 90 7,
                              direction = Vec4 (- 1) 0 (- 1) 12, info = Vec2 20 35\<rparr>)"
proof -
  have h1: "length [sun, lamp] \<le> (8 :: nat)" by simp
  have h2: "length [sun, lamp] \<le> unat (16 :: u32)" by simp
  obtain c where c: "allocate_lights int half_turn 16 [sun, lamp] 8 = Inr c"
      "unat (count c) = length [sun, lamp]"
      "\<forall>i<length [sun, lamp]. lights c ! i = Some (transform_rule int half_turn ([sun, lamp] ! i))"
    using allocate_lights_packs_in_order [OF h1 h2, of int half_turn] by blast
  have "lights c ! 0 = Some (transform_rule int half_turn sun)"
    using c(3) by simp
  moreover have "lights c ! 1 = Some (transform_rule int half_turn lamp)"
    using c(3) by simp
  ultimately show ?thesis
    using c(1,2) h1 h2 by (simp add: transform_rule_def sun_def lamp_def)
qed

text \<open>
  C1 as stated fails where \<open>max_lights\<close> is more than the array of \<open>T\<close> holds: two
  lights, \<open>max_lights = 2\<close> and an array of one slot pass the assertion, and the second
  record is written past the array.
\<close>

theorem allocate_lights_overruns_small_container:
  "length [sun, lamp] \<le> (2 :: nat) \<and>
   allocate_lights int half_turn 1 [sun, lamp] 2 = Inl ArrayOverrun"
  by (simp add: allocate_lights_eq)

text \<open>
  C4, as amended. \<open>allocate_lights\<close> has the precondition \<open>|L| \<le> max_lights\<close>: a call
  that violates it ends in the failed assertion, and a call that meets it never does.
  Under the precondition the operation completes and returns a container when \<open>|L|\<close>
  is also within the length of the \<open>lights\<close> array of \<open>T\<close>.
\<close>

theorem allocate_lights_assertion:
  "(allocate_lights f r capacity L max_lights = Inl AssertionFailure \<longleftrightarrow>
      \<not> length L \<le> max_lights) \<and>
   (length L \<le> max_lights \<and> length L \<le> unat capacity \<longrightarrow>
      (\<exists>c. allocate_lights f r capacity L max_lights = Inr c))"
proof -
  have "length L \<le> unat capacity \<Longrightarrow> length L < 2 ^ 32"
    using unat_u32_bound [of capacity] by simp
  then show ?thesis
    by (auto simp: allocate_lights_eq)
qed

theorem allocate_lights_assertion_witness:
  "allocate_lights int half_turn 16 [sun, lamp, sun] 2 = Inl AssertionFailure \<and>
   allocate_lights int half_turn 16 [sun, lamp] 2 \<noteq> Inl AssertionFailure \<and>
   (\<exists>c. allocate_lights int half_turn 16 [sun, lamp] 2 = Inr c)"
  using allocate_lights_assertion [of int half_turn 16 "[sun, lamp, sun]" 2]
    allocate_lights_assertion [of int half_turn 16 "[sun, lamp]" 2]
  by simp

text \<open>
  C4 as stated fails in its last part: three lights with \<open>max_lights = 8\<close> meet the
  precondition, and with an array of two slots the operation does not complete.
\<close>

theorem allocate_lights_passes_assertion_and_overruns:
  "length [sun, lamp, sun] \<le> (8 :: nat) \<and>
   allocate_lights int half_turn 2 [sun, lamp, sun] 8 = Inl ArrayOverrun"
  by (simp add: allocate_lights_eq)

subsection \<open>The record of one light\<close>

text \<open>
  C2. For every scene light that \<open>allocate_lights\<close> or \<open>allocate_set_num_lights\<close>
  processes, the operation returns the container with, in the slot of that light, the
  record: position = (the translation of the transform of the light's node, the light
  type cast to float); color = (the color, the intensity); direction = (the rotation of
  that transform applied to the direction of the light, the range); info = (the inner
  cone angle, the outer cone angle). The lights of \<open>allocate_lights\<close> are \<open>L[i]\<close> for
  \<open>i < |L|\<close>; those of \<open>allocate_set_num_lights\<close> are \<open>L[i]\<close>, or the last of \<open>L\<close> from
  \<open>|L|\<close> on, for \<open>i < n\<close>. Both operations are taken within the array of \<open>T\<close>.
\<close>

theorem light_record_fields:
  "(length L \<le> max_lights \<and> length L \<le> unat capacity \<longrightarrow>
      (\<exists>c. allocate_lights f r capacity L max_lights = Inr c \<and>
           (\<forall>i<length L. \<exists>g. lights c ! i = Some g \<and>
              xyz_of (position g) = get_translation (get_transform (get_node (L ! i))) \<and>
              w_of (position g) = f (get_light_type (L ! i)) \<and>
              xyz_of (color g) = p_color (get_properties (L ! i)) \<and>
              w_of (color g) = p_intensity (get_properties (L ! i)) \<and>
              xyz_of (direction g) =
                r (get_rotation (get_transform (get_node (L ! i))))
                  (p_direction (get_properties (L ! i))) \<and>
              w_of (direction g) = p_range (get_properties (L ! i)) \<and>
              info g = Vec2 (p_inner_cone_angle (get_properties (L ! i)))
                            (p_outer_cone_angle (get_properties (L ! i)))))) \<and>
   (L \<noteq> [] \<and> n \<le> unat capacity \<longrightarrow>
      (\<exists>c. allocate_set_num_lights f r capacity L n = Some (Inr c) \<and>
           (\<forall>i<n. \<exists>g. lights c ! i = Some g \<and>
              xyz_of (position g) = get_translation (get_transform (get_node (padded_light L i))) \<and>
              w_of (position g) = f (get_light_type (padded_light L i)) \<and>
              xyz_of (color g) = p_color (get_properties (padded_light L i)) \<and>
              w_of (color g) = p_intensity (get_properties (padded_light L i)) \<and>
              xyz_of (direction g) =
                r (get_rotation (get_transform (get_node (padded_light L i))))
                  (p_direction (get_properties (padded_light L i))) \<and>
              w_of (direction g) = p_range (get_properties (padded_light L i)) \<and>
              info g = Vec2 (p_inner_cone_angle (get_properties (padded_light L i)))
                            (p_outer_cone_angle (get_properties (padded_light L i))))))"
proof (intro conjI impI)
  assume a: "length L \<le> max_lights \<and> length L \<le> unat capacity"
  then have "length L < 2 ^ 32"
    using unat_u32_bound [of capacity] by simp
  with a show "\<exists>c. allocate_lights f r capacity L max_lights = Inr c \<and>
           (\<forall>i<length L. \<exists>g. lights c ! i = Some g \<and>
              xyz_of (position g) = get_translation (get_transform (get_node (L ! i))) \<and>
              w_of (position g) = f (get_light_type (L ! i)) \<and>
              xyz_of (color g) = p_color (get_properties (L ! i)) \<and>
              w_of (color g) = p_intensity (get_properties (L ! i)) \<and>
              xyz_of (direction g) =
                r (get_rotation (get_transform (get_node (L ! i))))
                  (p_direction (get_properties (L ! i))) \<and>
              w_of (direction g) = p_range (get_properties (L ! i)) \<and>
              info g = Vec2 (p_inner_cone_angle (get_properties (L ! i)))
                            (p_outer_cone_angle (get_properties (L ! i))))"
    by (simp add: allocate_lights_eq nth_append transform_rule_def xyz_of_vec4_of w_of_vec4_of)
next
  assume a: "L \<noteq> [] \<and> n \<le> unat capacity"
  then have "n < 2 ^ 32"
    using unat_u32_bound [of capacity] by simp
  with a show "\<exists>c. allocate_set_num_lights f r capacity L n = Some (Inr c) \<and>
           (\<forall>i<n. \<exists>g. lights c ! i = Some g \<and>
              xyz_of (position g) = get_translation (get_transform (get_node (padded_light L i))) \<and>
              w_of (position g) = f (get_light_type (padded_light L i)) \<and>
              xyz_of (color g) = p_color (get_properties (padded_light L i)) \<and>
              w_of (color g) = p_intensity (get_properties (padded_light L i)) \<and>
              xyz_of (direction g) =
                r (get_rotation (get_transform (get_node (padded_light L i))))
                  (p_direction (get_properties (padded_light L i))) \<and>
              w_of (direction g) = p_range (get_properties (padded_light L i)) \<and>
              info g = Vec2 (p_inner_cone_angle (get_properties (padded_light L i)))
                            (p_outer_cone_angle (get_properties (padded_light L i))))"
    by (cases "n = 0")
       (simp_all add: allocate_set_num_lights_eq nth_append transform_rule_def
          xyz_of_vec4_of w_of_vec4_of)
qed

text \<open>
  Both operations on the two lights: the lamp in slot 1 of \<open>allocate_lights\<close>, the sun in
  slot 0 and the lamp again, as padding, in slot 2 of \<open>allocate_set_num_lights\<close>.
\<close>

theorem light_record_fields_witness:
  "length [sun, lamp] \<le> (2 :: nat) \<and> length [sun, lamp] \<le> unat (4 :: u32) \<and>
   [sun, lamp] \<noteq> [] \<and> 3 \<le> unat (4 :: u32) \<and>
   (\<exists>c. allocate_lights int half_turn 4 [sun, lamp] 2 = Inr c \<and>
        (\<exists>g. lights c ! 1 = Some g \<and>
             xyz_of (position g) = Vec3 4 2 (- 6) \<and> w_of (position g) = 2 \<and>
             xyz_of (color g) = Vec3 255 180 90 \<and> w_of (color g) = 7 \<and>
             xyz_of (direction g) = Vec3 (- 1) 0 (- 1) \<and> w_of (direction g) = 12 \<and>
             info g = Vec2 20 35)) \<and>
   (\<exists>c. allocate_set_num_lights int half_turn 4 [sun, lamp] 3 = Some (Inr c) \<and>
        (\<exists>g. lights c ! 0 = Some g \<and>
             xyz_of (position g) = Vec3 0 100 0 \<and> w_of (position g) = 0 \<and>
             xyz_of (color g) = Vec3 255 255 200 \<and> w_of (color g) = 3 \<and>
             xyz_of (direction g) = Vec3 0 (- 1) 0 \<and> w_of (direction g) = 0 \<and>
             info g = Vec2 0 0) \<and>
        (\<exists>g. lights c ! 2 = Some g \<and>
             xyz_of (position g) = Vec3 4 2 (- 6) \<and> w_of (position g) = 2 \<and>
             xyz_of (color g) = Vec3 255 180 90 \<and> w_of (color g) = 7 \<and>
             xyz_of (direction g) = Vec3 (- 1) 0 (- 1) \<and> w_of (direction g) = 12 \<and>
             info g = Vec2 20 35))"
proof -
  note t = light_record_fields [of "[sun, lamp]" 2 4 int half_turn 3]
  have h1: "length [sun, lamp] \<le> (2 :: nat) \<and> length [sun, lamp] \<le> unat (4 :: u32)" by simp
  have h2: "[sun, lamp] \<noteq> [] \<and> 3 \<le> unat (4 :: u32)" by simp
  obtain c where c: "allocate_lights int half_turn 4 [sun, lamp] 2 = Inr c"
    and cs: "\<forall>i<length [sun, lamp]. \<exists>g. lights c ! i = Some g \<and>
              xyz_of (position g) = get_translation (get_transform (get_node ([sun, lamp] ! i))) \<and>
              w_of (position g) = int (get_light_type ([sun, lamp] ! i)) \<and>
              xyz_of (color g) = p_color (get_properties ([sun, lamp] ! i)) \<and>
              w_of (color g) = p_intensity (get_properties ([sun, lamp] ! i)) \<and>
              xyz_of (direction g) =
                half_turn (get_rotation (get_transform (get_node ([sun, lamp] ! i))))
                  (p_direction (get_properties ([sun, lamp] ! i))) \<and>
              w_of (direction g) = p_range (get_properties ([sun, lamp] ! i)) \<and>
              info g = Vec2 (p_inner_cone_angle (get_properties ([sun, lamp] ! i)))
                            (p_outer_cone_angle (get_properties ([sun, lamp] ! i)))"
    using t h1 by blast
  obtain d where d: "allocate_set_num_lights int half_turn 4 [sun, lamp] 3 = Some (Inr d)"
    and ds: "\<forall>i<3. \<exists>g. lights d ! i = Some g \<and>
              xyz_of (position g) =
                get_translation (get_transform (get_node (padded_light [sun, lamp] i))) \<and>
              w_of (position g) = int (get_light_type (padded_light [sun, lamp] i)) \<and>
              xyz_of (color g) = p_color (get_properties (padded_light [sun, lamp] i)) \<and>
              w_of (color g) = p_intensity (get_properties (padded_light [sun, lamp] i)) \<and>
              xyz_of (direction g) =
                half_turn (get_rotation (get_transform (get_node (padded_light [sun, lamp] i))))
                  (p_direction (get_properties (padded_light [sun, lamp] i))) \<and>
              w_of (direction g) = p_range (get_properties (padded_light [sun, lamp] i)) \<and>
              info g = Vec2 (p_inner_cone_angle (get_properties (padded_light [sun, lamp] i)))
                            (p_outer_cone_angle (get_properties (padded_light [sun, lamp] i)))"
    using t h2 by blast
  have c1: "\<exists>g. lights c ! 1 = Some g \<and>
             xyz_of (position g) = Vec3 4 2 (- 6) \<and> w_of (position g) = 2 \<and>
             xyz_of (color g) = Vec3 255 180 90 \<and> w_of (color g) = 7 \<and>
             xyz_of (direction g) = Vec3 (- 1) 0 (- 1) \<and> w_of (direction g) = 12 \<and>
             info g = Vec2 20 35"
    using cs [rule_format, of 1] by (simp add: lamp_def)
  have d0: "\<exists>g. lights d ! 0 = Some g \<and>
             xyz_of (position g) = Vec3 0 100 0 \<and> w_of (position g) = 0 \<and>
             xyz_of (color g) = Vec3 255 255 200 \<and> w_of (color g) = 3 \<and>
             xyz_of (direction g) = Vec3 0 (- 1) 0 \<and> w_of (direction g) = 0 \<and>
             info g = Vec2 0 0"
    using ds [rule_format, of 0] by (simp add: sun_def padded_light_def)
  have d2: "\<exists>g. lights d ! 2 = Some g \<and>
             xyz_of (position g) = Vec3 4 2 (- 6) \<and> w_of (position g) = 2 \<and>
             xyz_of (color g) = Vec3 255 180 90 \<and> w_of (color g) = 7 \<and>
             xyz_of (direction g) = Vec3 (- 1) 0 (- 1) \<and> w_of (direction g) = 12 \<and>
             info g = Vec2 20 35"
    using ds [rule_format, of 2] by (simp add: lamp_def padded_light_def)
  show ?thesis
    using h1 h2 c c1 d d0 d2 by blast
qed

text \<open>
  C9. The record of a light is determined by the translation and rotation of its node
  and by its type, color, intensity, direction, range and cone angles: two lights that
  agree on these get the same record, whichever of the two operations processes them,
  in whichever list, at whichever index.
\<close>

theorem per_light_record_deterministic:
  assumes "processed f r c1 i l1" and "processed f r c2 j l2"
    and "get_translation (get_transform (get_node l1)) =
         get_translation (get_transform (get_node l2))"
    and "get_rotation (get_transform (get_node l1)) =
         get_rotation (get_transform (get_node l2))"
    and "get_light_type l1 = get_light_type l2"
    and "p_color (get_properties l1) = p_color (get_properties l2)"
    and "p_intensity (get_properties l1) = p_intensity (get_properties l2)"
    and "p_direction (get_properties l1) = p_direction (get_properties l2)"
    and "p_range (get_properties l1) = p_range (get_properties l2)"
    and "p_inner_cone_angle (get_properties l1) = p_inner_cone_angle (get_properties l2)"
    and "p_outer_cone_angle (get_properties l1) = p_outer_cone_angle (get_properties l2)"
  shows "lights c1 ! i = lights c2 ! j \<and> lights c1 ! i \<noteq> None"
proof -
  have "transform_rule f r l1 = transform_rule f r l2"
    using assms(3-) by (simp add: transform_rule_def)
  then show ?thesis
    using processed_slot [OF assms(1)] processed_slot [OF assms(2)] by simp
qed

theorem per_light_record_deterministic_witness:
  "\<exists>c1 c2. allocate_lights int half_turn 8 [sun, lamp] 8 = Inr c1 \<and>
           allocate_set_num_lights int half_turn 4 [lamp, sun] 4 = Some (Inr c2) \<and>
           processed int half_turn c1 0 sun \<and> processed int half_turn c2 3 sun \<and>
           lights c1 ! 0 = lights c2 ! 3 \<and> lights c1 ! 0 \<noteq> None"
proof -
  obtain c1 where c1: "allocate_lights int half_turn 8 [sun, lamp] 8 = Inr c1"
    by (simp add: allocate_lights_eq)
  obtain c2 where c2: "allocate_set_num_lights int half_turn 4 [lamp, sun] 4 = Some (Inr c2)"
    by (simp add: allocate_set_num_lights_eq)
  have "processed int half_turn c1 0 ([sun, lamp] ! 0)"
    using c1 by (rule by_allocate_lights) simp
  then have p1: "processed int half_turn c1 0 sun" by simp
  have "processed int half_turn c2 3
          (if 3 < length [lamp, sun] then [lamp, sun] ! 3 else last [lamp, sun])"
    using c2 by (rule by_allocate_set_num_lights) simp
  then have p2: "processed int half_turn c2 3 sun" by simp
  have "lights c1 ! 0 = lights c2 ! 3 \<and> lights c1 ! 0 \<noteq> None"
    by (rule per_light_record_deterministic [OF p1 p2]) simp_all
  then show ?thesis
    using c1 c2 p1 p2 by blast
qed

subsection \<open>The padding policy\<close>

text \<open>
  C3, as amended. For every non-empty light list \<open>L\<close> and every \<open>n\<close> within the length
  of the \<open>lights\<close> array of \<open>T\<close>, \<open>allocate_set_num_lights\<close> returns a container with
  \<open>count = n\<close>, whose record at every index \<open>i < min(n, |L|)\<close> is the transform of
  \<open>L[i]\<close>, and at every index \<open>i\<close> with \<open>|L| \<le> i < n\<close> the transform of the last
  element of \<open>L\<close>.
\<close>

theorem allocate_set_num_lights_pads_with_last:
  assumes "L \<noteq> []" and "n \<le> unat capacity"
  shows "\<exists>c. allocate_set_num_lights f r capacity L n = Some (Inr c) \<and>
             unat (count c) = n \<and>
             (\<forall>i<min n (length L). lights c ! i = Some (transform_rule f r (L ! i))) \<and>
             (\<forall>i. length L \<le> i \<and> i < n \<longrightarrow> lights c ! i = Some (transform_rule f r (last L)))"
proof -
  have small: "n < 2 ^ 32"
    using assms(2) unat_u32_bound [of capacity] by simp
  then have "unat (word_of_nat n :: u32) = n"
    by (rule unat_u32_of_nat)
  then show ?thesis
    using assms small
    by (cases "n = 0") (simp_all add: allocate_set_num_lights_eq nth_append padded_light_def)
qed

theorem allocate_set_num_lights_pads_with_last_witness:
  "[lamp, sun] \<noteq> [] \<and> 4 \<le> unat (4 :: u32) \<and>
   (\<exists>c. allocate_set_num_lights int half_turn 4 [lamp, sun] 4 = Some (Inr c) \<and>
        unat (count c) = 4 \<and>
        lights c ! 0 = Some (transform_rule int half_turn lamp) \<and>
        lights c ! 1 = Some (transform_rule int half_turn sun) \<and>
        lights c ! 2 = Some (transform_rule int half_turn sun) \<and>
        lights c ! 3 = Some (transform_rule int half_turn sun))"
proof -
  have h1: "[lamp, sun] \<noteq> []" by simp
  have h2: "4 \<le> unat (4 :: u32)" by simp
  obtain c where c: "allocate_set_num_lights int half_turn 4 [lamp, sun] 4 = Some (Inr c)"
      "unat (count c) = 4"
      "\<forall>i<min 4 (length [lamp, sun]).
          lights c ! i = Some (transform_rule int half_turn ([lamp, sun] ! i))"
      "\<forall>i. length [lamp, sun] \<le> i \<and> i < 4 \<longrightarrow>
           lights c ! i = Some (transform_rule int half_turn (last [lamp, sun]))"
    using allocate_set_num_lights_pads_with_last [OF h1 h2, of int half_turn] by blast
  have "lights c ! 0 = Some (transform_rule int half_turn lamp)"
    using c(3) by simp
  moreover have "lights c ! 1 = Some (transform_rule int half_turn sun)"
    using c(3) by simp
  moreover have "lights c ! 2 = Some (transform_rule int half_turn sun)"
    using c(4) by simp
  moreover have "lights c ! 3 = Some (transform_rule int half_turn sun)"
    using c(4) by simp
  ultimately show ?thesis
    using c(1,2) h2 by simp
qed

text \<open>
  C3 as stated fails for an \<open>n\<close> beyond the array of \<open>T\<close>: one light, \<open>n = 2\<close> and an
  array of one slot build two records, and \<open>std::copy\<close> writes the second past the
  array.
\<close>

theorem allocate_set_num_lights_overruns_small_container:
  "[lamp] \<noteq> [] \<and> allocate_set_num_lights int half_turn 1 [lamp] 2 = Some (Inl ArrayOverrun)"
  by (simp add: allocate_set_num_lights_eq)

text \<open>
  C5. The claim is that a call of \<open>allocate_set_num_lights\<close> with an empty light list
  and \<open>n > 0\<close> ends in a fatal assertion. The code at the empty list and \<open>n = 1\<close>:
  \<open>to_u32\<close> gives the count 1, the first round of the loop finds \<open>0 < size()\<close> false and
  evaluates \<open>back()\<close> of the empty vector, which is undefined behaviour; no assertion is
  involved, the operation has none.
\<close>

theorem allocate_set_num_lights_empty_list_reaches_back:
  "to_u32 1 = Inr 1 \<and>
   vector_back ([] :: (nat, int, bool) sg_Light list) = Inl BackOfEmptyVector \<and>
   undefined_behaviour BackOfEmptyVector \<and>
   lights_loop int half_turn [] 1 0 [] = Some (Inl BackOfEmptyVector) \<and>
   allocate_set_num_lights int half_turn 4 [] 1 = Some (Inl BackOfEmptyVector) \<and>
   allocate_set_num_lights int half_turn 4 [] 1 \<noteq> Some (Inl AssertionFailure)"
  by (simp add: to_u32_def vector_back_def lights_loop_empty allocate_set_num_lights_eq)

text \<open>
  C10. For every light list \<open>L\<close>, the empty one included, \<open>allocate_set_num_lights\<close> with
  \<open>num_lights = 0\<close> returns a container with \<open>count = 0\<close> and no slot written: the loop
  leaves at once with the empty \<open>lights_vector\<close>, so no light is read, \<open>back()\<close> is not
  evaluated, and the result is the same for every list.
\<close>

theorem allocate_set_num_lights_zero:
  "allocate_set_num_lights f r capacity L 0 =
     Some (Inr \<lparr>count = 0, lights = replicate (unat capacity) None\<rparr>) \<and>
   allocate_set_num_lights f r capacity [] 0 =
     Some (Inr \<lparr>count = 0, lights = replicate (unat capacity) None\<rparr>) \<and>
   lights_loop f r L 0 0 [] = Some (Inr [])"
  by (simp add: allocate_set_num_lights_eq lights_loop_zero)

subsection \<open>The capacity of the container\<close>


subsection \<open>The attachment lists\<close>

text \<open>
  C7. A newly constructed Subpass has the output attachment list with the one entry 0
  and the empty input attachment list.
\<close>

theorem new_subpass_attachments:
  "get_output_attachments (Subpass_new rc vertex_source fragment_source ds0) = [0] \<and>
   get_input_attachments (Subpass_new rc vertex_source fragment_source ds0) = []"
  by (simp add: get_output_attachments_def get_input_attachments_def Subpass_new_def)

text \<open>
  C8. \<open>set_input_attachments v\<close> makes \<open>v\<close> the stored input list, whatever the list was
  before, and leaves the output list; \<open>set_output_attachments v\<close> likewise for the
  output list; and after \<open>update_render_target_attachments\<close> the lists of the render
  target are the lists stored in the subpass.
\<close>

theorem attachments_replaced_and_propagated:
  "get_input_attachments (set_input_attachments v s) = v \<and>
   get_output_attachments (set_input_attachments v s) = get_output_attachments s \<and>
   get_output_attachments (set_output_attachments v s) = v \<and>
   get_input_attachments (set_output_attachments v s) = get_input_attachments s \<and>
   rt_input_attachments (update_render_target_attachments s rt) = get_input_attachments s \<and>
   rt_output_attachments (update_render_target_attachments s rt) = get_output_attachments s \<and>
   rt_input_attachments (update_render_target_attachments (set_input_attachments v s) rt) = v \<and>
   rt_output_attachments (update_render_target_attachments (set_output_attachments v s) rt) = v"
  by (simp add: get_input_attachments_def get_output_attachments_def set_input_attachments_def
      set_output_attachments_def update_render_target_attachments_def)

end
